theory Spec2Isabelle
  imports Complex_Main "HOL-Library.Sublist" "HOL-Library.Word"
begin

section \<open>Python values delivered by the consumer\<close>

text \<open>
  The consumer of \<^verbatim>\<open>agent.py\<close> is built with
  \<^verbatim>\<open>value_deserializer=lambda m: json.loads(m.decode('utf-8')) if m else None\<close>,
  so \<^verbatim>\<open>message.value\<close> is whatever \<^verbatim>\<open>json.loads\<close> returns, or
  \<^verbatim>\<open>None\<close>: a dict with string keys, a list, a str, an int, a float, a bool or None.
  A float is kept by its value (the two zeros are the one value \<open>Finite 0\<close>).
  A dict is an association list read with \<open>map_of\<close>.
\<close>

datatype pyfloat = Finite rat | PosInf | NegInf | NaN

datatype pyval =
    PNone
  | PBool bool
  | PInt int
  | PFloat pyfloat
  | PStr string
  | PList "pyval list"
  | PDict "(string \<times> pyval) list"

text \<open>Python's \<^verbatim>\<open>bool(x)\<close>, which \<^verbatim>\<open>if x\<close> and \<^verbatim>\<open>not x\<close> test.\<close>

fun truthy :: "pyval \<Rightarrow> bool" where
  "truthy PNone = False"
| "truthy (PBool b) = b"
| "truthy (PInt i) = (i \<noteq> 0)"
| "truthy (PFloat f) = (f \<noteq> Finite 0)"
| "truthy (PStr s) = (s \<noteq> [])"
| "truthy (PList xs) = (xs \<noteq> [])"
| "truthy (PDict d) = (d \<noteq> [])"

text \<open>
  Exceptions. \<^verbatim>\<open>except Exception\<close> catches every class below \<^verbatim>\<open>Exception\<close>;
  \<^verbatim>\<open>KeyboardInterrupt\<close> and the other direct subclasses of \<^verbatim>\<open>BaseException\<close>
  (\<^verbatim>\<open>asyncio.CancelledError\<close>, \<^verbatim>\<open>SystemExit\<close>) are not caught by it.
\<close>

datatype exc =
    JSONDecodeError
  | AttributeError
  | KeyError
  | ValueError
  | UnicodeDecodeError
  | Exc string
  | KeyboardInterrupt
  | BaseExc string

fun is_Exception :: "exc \<Rightarrow> bool" where
  "is_Exception KeyboardInterrupt = False"
| "is_Exception (BaseExc n) = False"
| "is_Exception e = True"

text \<open>\<^verbatim>\<open>d.get(k)\<close>, \<^verbatim>\<open>k in d\<close> and \<^verbatim>\<open>d[k]\<close> on a dict.\<close>

definition dict_get :: "(string \<times> pyval) list \<Rightarrow> string \<Rightarrow> pyval" where
  "dict_get d k = (case map_of d k of None \<Rightarrow> PNone | Some v \<Rightarrow> v)"

definition dict_contains :: "(string \<times> pyval) list \<Rightarrow> string \<Rightarrow> bool" where
  "dict_contains d k = (map_of d k \<noteq> None)"

definition dict_getitem :: "(string \<times> pyval) list \<Rightarrow> string \<Rightarrow> exc + pyval" where
  "dict_getitem d k = (case map_of d k of None \<Rightarrow> Inl KeyError | Some v \<Rightarrow> Inr v)"

text \<open>
  \<^verbatim>\<open>json.loads\<close> and \<^verbatim>\<open>bytes.decode\<close> belong to the Python library: they are
  parameters of the model. \<open>Inl e\<close> is the exception raised.
\<close>

type_synonym loads = "string \<Rightarrow> exc + pyval"
type_synonym decode = "8 word list \<Rightarrow> exc + string"

text \<open>
  \<^verbatim>\<open>create_consumer\<close>, line 56: the value deserializer. The payload \<^verbatim>\<open>m\<close> is
  \<^verbatim>\<open>None\<close> or bytes; both \<^verbatim>\<open>None\<close> and \<^verbatim>\<open>b''\<close> are falsy.
\<close>

definition value_deserializer :: "loads \<Rightarrow> decode \<Rightarrow> 8 word list option \<Rightarrow> exc + pyval" where
  "value_deserializer json_loads decode_utf8 m =
     (case m of
        None \<Rightarrow> Inr PNone
      | Some bs \<Rightarrow>
          if bs \<noteq> [] then
            (case decode_utf8 bs of Inl e \<Rightarrow> Inl e | Inr s \<Rightarrow> json_loads s)
          else Inr PNone)"

text \<open>\<^verbatim>\<open>isinstance(v, dict)\<close>.\<close>

fun is_mapping :: "pyval \<Rightarrow> bool" where
  "is_mapping (PDict d) = True"
| "is_mapping v = False"

section \<open>Extraction of the user content (\<^verbatim>\<open>main\<close>, lines 176 to 192)\<close>

text \<open>The branch \<^verbatim>\<open>isinstance(message.value, dict)\<close>, lines 178 to 182.\<close>

definition classify_dict :: "(string \<times> pyval) list \<Rightarrow> exc + pyval" where
  "classify_dict d =
     (if dict_get d ''type'' = PStr ''user_message'' \<and> dict_contains d ''content''
      then dict_getitem d ''content''
      else if dict_get d ''type'' = PStr ''user'' \<and> dict_contains d ''content''
      then dict_getitem d ''content''
      else Inr PNone)"

text \<open>
  The body of the inner \<^verbatim>\<open>try\<close>, lines 186 to 190. \<^verbatim>\<open>data_obj.get\<close> exists on a
  dict only: on a list, str, int, float, bool or None the attribute lookup raises
  \<^verbatim>\<open>AttributeError\<close>.
\<close>

definition classify_decoded :: "string \<Rightarrow> pyval \<Rightarrow> exc + pyval" where
  "classify_decoded s data_obj =
     (case data_obj of
        PDict d \<Rightarrow>
          if dict_get d ''type'' \<in> set [PStr ''user_message'', PStr ''user'']
             \<and> dict_contains d ''content''
          then dict_getitem d ''content''
          else Inr (PStr s)
      | _ \<Rightarrow> Inl AttributeError)"

text \<open>
  The branch \<^verbatim>\<open>isinstance(message.value, str)\<close>, lines 183 to 192: the inner
  \<^verbatim>\<open>try\<close> with its handler \<^verbatim>\<open>except json.JSONDecodeError\<close>, which catches that
  class wherever the body raises it and lets every other exception through.
\<close>

definition classify_str :: "loads \<Rightarrow> string \<Rightarrow> exc + pyval" where
  "classify_str json_loads s =
     (case (case json_loads s of Inl e \<Rightarrow> Inl e | Inr data_obj \<Rightarrow> classify_decoded s data_obj) of
        Inl e \<Rightarrow> if e = JSONDecodeError then Inr (PStr s) else Inl e
      | Inr user_content \<Rightarrow> Inr user_content)"

text \<open>
  Lines 177 to 192: \<^verbatim>\<open>user_content\<close> starts as \<^verbatim>\<open>None\<close> and stays so for a value
  that is neither a dict nor a str.
\<close>

definition extract_user_content :: "loads \<Rightarrow> pyval \<Rightarrow> exc + pyval" where
  "extract_user_content json_loads v =
     (case v of
        PDict d \<Rightarrow> classify_dict d
      | PStr s \<Rightarrow> classify_str json_loads s
      | _ \<Rightarrow> Inr PNone)"

section \<open>The dispatch loop (\<^verbatim>\<open>main\<close>, lines 167 to 215)\<close>

text \<open>What the loop does that can be observed, in the order it does it.\<close>

datatype event =
    LogReceived pyval
  | LogUser pyval
  | AgentCall pyval
  | AgentReturn string
  | AgentRaise exc
  | LogAssistant string
  | LogError exc
  | PrintTraceback exc
  | LogInterrupt
  | LogFatal exc
  | ConsumerStop
  | ProducerStop
  | LogStopped

text \<open>
  \<^verbatim>\<open>agent.assistant\<close> is the external agent: from its state and the prompt it returns a
  response or raises, and moves to a new state.
\<close>

type_synonym 'a assistant = "'a \<Rightarrow> pyval \<Rightarrow> (exc + string) \<times> 'a"

text \<open>
  The body of the per-message \<^verbatim>\<open>try\<close>, lines 171 to 199. The result is the events,
  the agent's state and the exception raised, if any.
\<close>

definition try_block :: "loads \<Rightarrow> 'a assistant \<Rightarrow> 'a \<Rightarrow> pyval \<Rightarrow> event list \<times> 'a \<times> exc option" where
  "try_block json_loads assistant a v =
     (if \<not> truthy v then ([], a, None)
      else
        (case extract_user_content json_loads v of
           Inl e \<Rightarrow> ([LogReceived v], a, Some e)
         | Inr user_content \<Rightarrow>
             if truthy user_content then
               (case assistant a user_content of
                  (Inr response, a') \<Rightarrow>
                    ([LogReceived v, LogUser user_content, AgentCall user_content,
                      AgentReturn response, LogAssistant response], a', None)
                | (Inl e, a') \<Rightarrow>
                    ([LogReceived v, LogUser user_content, AgentCall user_content,
                      AgentRaise e], a', Some e))
             else ([LogReceived v], a, None)))"

text \<open>
  One iteration, lines 170 to 206: the \<^verbatim>\<open>try\<close> with its handler
  \<^verbatim>\<open>except Exception\<close>, which logs, prints the traceback and lets the loop go on.
  An exception that is not an \<^verbatim>\<open>Exception\<close> leaves the loop.
\<close>

definition process_message :: "loads \<Rightarrow> 'a assistant \<Rightarrow> 'a \<Rightarrow> pyval \<Rightarrow> event list \<times> 'a \<times> exc option" where
  "process_message json_loads assistant a v =
     (case try_block json_loads assistant a v of
        (evs, a', None) \<Rightarrow> (evs, a', None)
      | (evs, a', Some e) \<Rightarrow>
          if is_Exception e then (evs @ [LogError e, PrintTraceback e], a', None)
          else (evs, a', Some e))"

text \<open>
  What \<^verbatim>\<open>async for message in consumer\<close> gets at each step: a message, or an exception
  raised by the consumer itself. The end of the list is the end of the iteration.
\<close>

datatype delivery = Msg pyval | Raise exc

fun dispatch_loop :: "loads \<Rightarrow> 'a assistant \<Rightarrow> 'a \<Rightarrow> delivery list \<Rightarrow> event list \<times> 'a \<times> exc option" where
  "dispatch_loop json_loads assistant a [] = ([], a, None)"
| "dispatch_loop json_loads assistant a (Raise e # ds) = ([], a, Some e)"
| "dispatch_loop json_loads assistant a (Msg v # ds) =
     (case process_message json_loads assistant a v of
        (evs, a', Some e) \<Rightarrow> (evs, a', Some e)
      | (evs, a', None) \<Rightarrow>
          (case dispatch_loop json_loads assistant a' ds of
             (evs', a'', r) \<Rightarrow> (evs @ evs', a'', r)))"

text \<open>
  The handlers of the outer \<^verbatim>\<open>try\<close>, lines 208 to 211: the events logged and the
  exception still pending.
\<close>

definition outer_handlers :: "exc option \<Rightarrow> event list \<times> exc option" where
  "outer_handlers r =
     (case r of
        None \<Rightarrow> ([], None)
      | Some e \<Rightarrow>
          if e = KeyboardInterrupt then ([LogInterrupt], None)
          else if is_Exception e then ([LogFatal e], None)
          else ([], Some e))"

text \<open>
  The \<^verbatim>\<open>finally\<close> block, lines 213 to 215. \<open>consumer_stop\<close> and \<open>producer_stop\<close>
  say what each \<^verbatim>\<open>stop()\<close> does when it is awaited: \<open>None\<close> when it returns,
  \<open>Some e\<close> when it raises \<open>e\<close>. The statements run in sequence with no handler.
\<close>

definition shutdown :: "exc option \<Rightarrow> exc option \<Rightarrow> event list \<times> exc option" where
  "shutdown consumer_stop producer_stop =
     (case consumer_stop of
        Some e \<Rightarrow> ([ConsumerStop], Some e)
      | None \<Rightarrow>
          (case producer_stop of
             Some e \<Rightarrow> ([ConsumerStop, ProducerStop], Some e)
           | None \<Rightarrow> ([ConsumerStop, ProducerStop, LogStopped], None)))"

text \<open>
  The whole statement, lines 167 to 215. An exception raised in \<^verbatim>\<open>finally\<close> replaces
  the pending one.
\<close>

definition run_main ::
  "loads \<Rightarrow> 'a assistant \<Rightarrow> exc option \<Rightarrow> exc option \<Rightarrow> 'a \<Rightarrow> delivery list
    \<Rightarrow> event list \<times> 'a \<times> exc option" where
  "run_main json_loads assistant consumer_stop producer_stop a ds =
     (case dispatch_loop json_loads assistant a ds of
        (evs, a', r) \<Rightarrow>
          (case outer_handlers r of
             (hevs, pending) \<Rightarrow>
               (case shutdown consumer_stop producer_stop of
                  (fevs, raised) \<Rightarrow>
                    (evs @ hevs @ fevs, a',
                     case raised of Some e \<Rightarrow> Some e | None \<Rightarrow> pending))))"

text \<open>Projections of a trace.\<close>

fun agent_calls :: "event list \<Rightarrow> pyval list" where
  "agent_calls [] = []"
| "agent_calls (AgentCall c # es) = c # agent_calls es"
| "agent_calls (e # es) = agent_calls es"

fun error_logs :: "event list \<Rightarrow> exc list" where
  "error_logs [] = []"
| "error_logs (LogError e # es) = e # error_logs es"
| "error_logs (e # es) = error_logs es"

section \<open>The security context (\<^verbatim>\<open>create_ssl_context\<close>, lines 26 to 32)\<close>

text \<open>
  \<^verbatim>\<open>ssl.SSLContext\<close> belongs to the Python library. Its fields are modelled as the
  library documents them: \<^verbatim>\<open>options\<close> is a set of flags, \<^verbatim>\<open>minimum_version\<close> is a
  member of \<^verbatim>\<open>ssl.TLSVersion\<close>, and the trust store is the set of loaded
  certificates.
\<close>

datatype ssl_option =
    OP_NO_SSLv2 | OP_NO_SSLv3 | OP_NO_TLSv1 | OP_NO_TLSv1_1 | OP_NO_TLSv1_2 | OP_NO_TLSv1_3
  | OP_OTHER nat

datatype verify_mode = CERT_NONE | CERT_OPTIONAL | CERT_REQUIRED

datatype tls_version =
    MINIMUM_SUPPORTED | SSLv3 | TLSv1 | TLSv1_1 | TLSv1_2 | TLSv1_3 | MAXIMUM_SUPPORTED

record ssl_context =
  options :: "ssl_option set"
  check_hostname :: bool
  verify_mode :: verify_mode
  minimum_version :: tls_version
  cert_store :: "string set"

text \<open>
  The protocol versions a connection can negotiate. A context's own settings permit a
  version when its \<^verbatim>\<open>OP_NO_*\<close> flag is absent and the version is not below the
  context's \<^verbatim>\<open>minimum_version\<close>; \<^verbatim>\<open>MINIMUM_SUPPORTED\<close> is no floor at all, and
  \<^verbatim>\<open>MAXIMUM_SUPPORTED\<close> stands for the highest version, TLS 1.3. What the build of
  the TLS library supports beyond the context's settings is outside the model.
\<close>

datatype protocol = P_SSLv2 | P_SSLv3 | P_TLSv1 | P_TLSv1_1 | P_TLSv1_2 | P_TLSv1_3

fun protocol_rank :: "protocol \<Rightarrow> nat" where
  "protocol_rank P_SSLv2 = 0"
| "protocol_rank P_SSLv3 = 1"
| "protocol_rank P_TLSv1 = 2"
| "protocol_rank P_TLSv1_1 = 3"
| "protocol_rank P_TLSv1_2 = 4"
| "protocol_rank P_TLSv1_3 = 5"

fun floor_rank :: "tls_version \<Rightarrow> nat" where
  "floor_rank MINIMUM_SUPPORTED = 0"
| "floor_rank SSLv3 = 1"
| "floor_rank TLSv1 = 2"
| "floor_rank TLSv1_1 = 3"
| "floor_rank TLSv1_2 = 4"
| "floor_rank TLSv1_3 = 5"
| "floor_rank MAXIMUM_SUPPORTED = 5"

fun disabling_option :: "protocol \<Rightarrow> ssl_option" where
  "disabling_option P_SSLv2 = OP_NO_SSLv2"
| "disabling_option P_SSLv3 = OP_NO_SSLv3"
| "disabling_option P_TLSv1 = OP_NO_TLSv1"
| "disabling_option P_TLSv1_1 = OP_NO_TLSv1_1"
| "disabling_option P_TLSv1_2 = OP_NO_TLSv1_2"
| "disabling_option P_TLSv1_3 = OP_NO_TLSv1_3"

definition version_permitted :: "ssl_context \<Rightarrow> protocol \<Rightarrow> bool" where
  "version_permitted ctx p =
     (disabling_option p \<notin> options ctx \<and> floor_rank (minimum_version ctx) \<le> protocol_rank p)"

text \<open>
  \<^verbatim>\<open>ssl.SSLContext(ssl.PROTOCOL_TLS_CLIENT)\<close>: \<^verbatim>\<open>check_hostname\<close> is on,
  \<^verbatim>\<open>verify_mode\<close> is \<^verbatim>\<open>CERT_REQUIRED\<close> and the trust store is empty. The default
  option flags and the default \<^verbatim>\<open>minimum_version\<close> depend on the build of the
  library (TLS 1.2 on some builds, \<^verbatim>\<open>MINIMUM_SUPPORTED\<close> on others): they are
  parameters.
\<close>

definition SSLContext_TLS_CLIENT :: "ssl_option set \<Rightarrow> tls_version \<Rightarrow> ssl_context" where
  "SSLContext_TLS_CLIENT default_options default_minimum =
     \<lparr>options = default_options, check_hostname = True, verify_mode = CERT_REQUIRED,
      minimum_version = default_minimum, cert_store = {}\<rparr>"

text \<open>
  The setters of the library: turning \<^verbatim>\<open>check_hostname\<close> on raises
  \<^verbatim>\<open>CERT_NONE\<close> to \<^verbatim>\<open>CERT_REQUIRED\<close>, and setting \<^verbatim>\<open>CERT_NONE\<close> while
  \<^verbatim>\<open>check_hostname\<close> is on raises \<^verbatim>\<open>ValueError\<close>.
\<close>

definition set_check_hostname :: "ssl_context \<Rightarrow> bool \<Rightarrow> ssl_context" where
  "set_check_hostname ctx b =
     (if b \<and> verify_mode ctx = CERT_NONE
      then ctx\<lparr>check_hostname := True, verify_mode := CERT_REQUIRED\<rparr>
      else ctx\<lparr>check_hostname := b\<rparr>)"

definition set_verify_mode :: "ssl_context \<Rightarrow> verify_mode \<Rightarrow> exc + ssl_context" where
  "set_verify_mode ctx m =
     (if m = CERT_NONE \<and> check_hostname ctx then Inl ValueError
      else Inr (ctx\<lparr>verify_mode := m\<rparr>))"

definition load_default_certs :: "ssl_context \<Rightarrow> string set \<Rightarrow> ssl_context" where
  "load_default_certs ctx default_certs = ctx\<lparr>cert_store := cert_store ctx \<union> default_certs\<rparr>"

text \<open>
  \<^verbatim>\<open>create_ssl_context\<close>, statement by statement. The function takes no argument:
  what it reads is the library's default context and \<open>default_certs\<close>, the system's
  default trust store, which \<^verbatim>\<open>load_default_certs\<close> loads. It assigns neither
  \<^verbatim>\<open>minimum_version\<close> nor any flag other than \<^verbatim>\<open>OP_NO_SSLv2\<close> and
  \<^verbatim>\<open>OP_NO_SSLv3\<close>.
\<close>

definition create_ssl_context ::
  "ssl_option set \<Rightarrow> tls_version \<Rightarrow> string set \<Rightarrow> exc + ssl_context" where
  "create_ssl_context default_options default_minimum default_certs =
     (let ctx0 = SSLContext_TLS_CLIENT default_options default_minimum;
          ctx1 = ctx0\<lparr>options := options ctx0 \<union> ({OP_NO_SSLv2} \<union> {OP_NO_SSLv3})\<rparr>;
          ctx2 = set_check_hostname ctx1 False
      in case set_verify_mode ctx2 CERT_NONE of
           Inl e \<Rightarrow> Inl e
         | Inr ctx3 \<Rightarrow> Inr (load_default_certs ctx3 default_certs))"

section \<open>Sample collaborators for the worked examples\<close>

text \<open>
  What \<^verbatim>\<open>json.loads\<close> returns on the texts the examples use. A text that is not in
  the table plays no part in any example.
\<close>

definition sample_loads :: loads where
  \<open>sample_loads s =
     (case map_of
        [(''{"type":"user","content":"hi"}'',
            Inr (PDict [(''type'', PStr ''user''), (''content'', PStr ''hi'')])),
         (''{"type":"system","content":"ping"}'',
            Inr (PDict [(''type'', PStr ''system''), (''content'', PStr ''ping'')])),
         (''[1, 2]'', Inr (PList [PInt 1, PInt 2])),
         (''42'', Inr (PInt 42)),
         (''hello'', Inl JSONDecodeError),
         (''boom'', Inl JSONDecodeError),
         ([], Inl JSONDecodeError)] s of
        Some r \<Rightarrow> r
      | None \<Rightarrow> Inl JSONDecodeError)\<close>

text \<open>
  An agent that counts its calls, answers \<open>''ok''\<close> and raises a
  \<^verbatim>\<open>RuntimeError\<close> on the prompt \<open>''boom''\<close>.
\<close>

definition sample_assistant :: "nat assistant" where
  "sample_assistant n prompt =
     (if prompt = PStr ''boom'' then (Inl (Exc ''RuntimeError''), Suc n)
      else (Inr ''ok'', Suc n))"


text \<open>
  The text \<^verbatim>\<open>'[' * 100000\<close>, on which \<^verbatim>\<open>json.loads\<close> raises
  \<^verbatim>\<open>RecursionError\<close>, and \<^verbatim>\<open>json.loads\<close> on it and on the texts of the table.
\<close>

definition deep_text :: string where
  "deep_text = replicate 100000 CHR ''[''"

definition sample_loads_deep :: loads where
  "sample_loads_deep s = (if s = deep_text then Inl (Exc ''RecursionError'') else sample_loads s)"

text \<open>The events that are log output (\<^verbatim>\<open>logger\<close> calls and the printed traceback).\<close>

fun is_log :: "event \<Rightarrow> bool" where
  "is_log (AgentCall c) = False"
| "is_log (AgentReturn r) = False"
| "is_log (AgentRaise e) = False"
| "is_log ConsumerStop = False"
| "is_log ProducerStop = False"
| "is_log e = True"

text \<open>
  The prompts the loop forwards for a message when nothing is raised before the call:
  the extracted content of a truthy message, when that content is truthy.
\<close>

definition dispatched :: "loads \<Rightarrow> pyval \<Rightarrow> pyval list" where
  "dispatched json_loads v =
     (if truthy v then
        (case extract_user_content json_loads v of
           Inr user_content \<Rightarrow> if truthy user_content then [user_content] else []
         | Inl e \<Rightarrow> [])
      else [])"

text \<open>
  A trace is sequential when no message is received and no call starts while a call
  to the agent is in flight, and every call has ended at the end of the trace.
\<close>

fun one_at_a_time :: "bool \<Rightarrow> event list \<Rightarrow> bool" where
  "one_at_a_time busy [] = (\<not> busy)"
| "one_at_a_time busy (AgentCall c # es) = (\<not> busy \<and> one_at_a_time True es)"
| "one_at_a_time busy (AgentReturn r # es) = (busy \<and> one_at_a_time False es)"
| "one_at_a_time busy (AgentRaise e # es) = (busy \<and> one_at_a_time False es)"
| "one_at_a_time busy (LogReceived v # es) = (\<not> busy \<and> one_at_a_time False es)"
| "one_at_a_time busy (e # es) = one_at_a_time busy es"

section \<open>Auxiliary facts\<close>

lemma classify_dict_cases:
  "classify_dict d =
     (case map_of d ''content'' of
        None \<Rightarrow> Inr PNone
      | Some c \<Rightarrow>
          if dict_get d ''type'' = PStr ''user_message'' \<or> dict_get d ''type'' = PStr ''user''
          then Inr c else Inr PNone)"
  by (simp add: classify_dict_def dict_contains_def dict_getitem_def split: option.split)

lemma classify_decoded_dict:
  "classify_decoded s (PDict d) =
     (case map_of d ''content'' of
        None \<Rightarrow> Inr (PStr s)
      | Some c \<Rightarrow>
          if dict_get d ''type'' = PStr ''user_message'' \<or> dict_get d ''type'' = PStr ''user''
          then Inr c else Inr (PStr s))"
  by (simp add: classify_decoded_def dict_contains_def dict_getitem_def split: option.split)

lemma classify_decoded_other: "\<not> is_mapping v \<Longrightarrow> classify_decoded s v = Inl AttributeError"
  by (cases v) (simp_all add: classify_decoded_def)

lemma agent_calls_append: "agent_calls (xs @ ys) = agent_calls xs @ agent_calls ys"
  by (induction xs rule: agent_calls.induct) simp_all

lemma one_at_a_time_append:
  "one_at_a_time b xs \<Longrightarrow> one_at_a_time False ys \<Longrightarrow> one_at_a_time b (xs @ ys)"
proof (induction xs arbitrary: b)
  case Nil
  then show ?case by simp
next
  case (Cons x xs)
  then show ?case by (cases x) auto
qed

lemma dispatch_loop_append:
  "dispatch_loop L A a ds1 = (e1, a1, None) \<Longrightarrow>
   dispatch_loop L A a (ds1 @ ds2) =
     (case dispatch_loop L A a1 ds2 of (e2, a2, r) \<Rightarrow> (e1 @ e2, a2, r))"
proof (induction ds1 arbitrary: a e1)
  case Nil
  then show ?case by (simp split: prod.split)
next
  case (Cons d ds1)
  show ?case
  proof (cases d)
    case (Raise e)
    with Cons.prems show ?thesis by simp
  next
    case (Msg v)
    obtain evs a' r where pm: "process_message L A a v = (evs, a', r)"
      by (cases "process_message L A a v") auto
    show ?thesis
    proof (cases r)
      case (Some e)
      with Cons.prems Msg pm show ?thesis by simp
    next
      case None
      obtain evs' a'' r' where dl: "dispatch_loop L A a' ds1 = (evs', a'', r')"
        by (cases "dispatch_loop L A a' ds1") auto
      from Cons.prems Msg pm None dl have r': "r' = None" and e1: "e1 = evs @ evs'" and a1: "a1 = a''"
        by simp_all
      from Cons.IH[of a' evs'] dl r' a1
      have "dispatch_loop L A a' (ds1 @ ds2) =
              (case dispatch_loop L A a1 ds2 of (e2, a2, r) \<Rightarrow> (evs' @ e2, a2, r))"
        by simp
      with Msg pm None e1 show ?thesis by (simp split: prod.split)
    qed
  qed
qed

lemma process_message_calls:
  "agent_calls (fst (process_message L A a v)) = dispatched L v"
proof (cases "truthy v")
  case False
  then show ?thesis by (simp add: process_message_def try_block_def dispatched_def)
next
  case True
  show ?thesis
  proof (cases "extract_user_content L v")
    case (Inl e)
    with True show ?thesis by (simp add: process_message_def try_block_def dispatched_def)
  next
    case (Inr uc)
    show ?thesis
    proof (cases "truthy uc")
      case False
      with True Inr show ?thesis by (simp add: process_message_def try_block_def dispatched_def)
    next
      case tu: True
      obtain r a' where "A a uc = (r, a')" by (cases "A a uc") auto
      with True Inr tu show ?thesis
        by (cases r) (simp_all add: process_message_def try_block_def dispatched_def)
    qed
  qed
qed

lemma process_message_state:
  "fst (snd (process_message L A a v)) = foldl (\<lambda>s c. snd (A s c)) a (dispatched L v)"
proof (cases "truthy v")
  case False
  then show ?thesis by (simp add: process_message_def try_block_def dispatched_def)
next
  case True
  show ?thesis
  proof (cases "extract_user_content L v")
    case (Inl e)
    with True show ?thesis by (simp add: process_message_def try_block_def dispatched_def)
  next
    case (Inr uc)
    show ?thesis
    proof (cases "truthy uc")
      case False
      with True Inr show ?thesis by (simp add: process_message_def try_block_def dispatched_def)
    next
      case tu: True
      obtain r a' where "A a uc = (r, a')" by (cases "A a uc") auto
      with True Inr tu show ?thesis
        by (cases r) (simp_all add: process_message_def try_block_def dispatched_def)
    qed
  qed
qed

lemma process_message_one_at_a_time:
  "one_at_a_time False (fst (process_message L A a v))"
proof (cases "truthy v")
  case False
  then show ?thesis by (simp add: process_message_def try_block_def)
next
  case True
  show ?thesis
  proof (cases "extract_user_content L v")
    case (Inl e)
    with True show ?thesis by (simp add: process_message_def try_block_def)
  next
    case (Inr uc)
    show ?thesis
    proof (cases "truthy uc")
      case False
      with True Inr show ?thesis by (simp add: process_message_def try_block_def)
    next
      case tu: True
      obtain r a' where "A a uc = (r, a')" by (cases "A a uc") auto
      with True Inr tu show ?thesis
        by (cases r) (simp_all add: process_message_def try_block_def)
    qed
  qed
qed

lemma process_message_no_stop:
  "count_list (fst (process_message L A a v)) ConsumerStop = 0
   \<and> count_list (fst (process_message L A a v)) ProducerStop = 0"
proof (cases "truthy v")
  case False
  then show ?thesis by (simp add: process_message_def try_block_def)
next
  case True
  show ?thesis
  proof (cases "extract_user_content L v")
    case (Inl e)
    with True show ?thesis by (simp add: process_message_def try_block_def)
  next
    case (Inr uc)
    show ?thesis
    proof (cases "truthy uc")
      case False
      with True Inr show ?thesis by (simp add: process_message_def try_block_def)
    next
      case tu: True
      obtain r a' where "A a uc = (r, a')" by (cases "A a uc") auto
      with True Inr tu show ?thesis
        by (cases r) (simp_all add: process_message_def try_block_def)
    qed
  qed
qed

lemma dispatch_loop_Msg:
  "dispatch_loop L A a (Msg v # ds) =
     (if snd (snd (process_message L A a v)) = None
      then (fst (process_message L A a v) @ fst (dispatch_loop L A (fst (snd (process_message L A a v))) ds),
            snd (dispatch_loop L A (fst (snd (process_message L A a v))) ds))
      else process_message L A a v)"
  by (cases "process_message L A a v") (auto split: prod.split option.split)

lemma dispatch_loop_no_stop:
  "count_list (fst (dispatch_loop L A a ds)) ConsumerStop = 0
   \<and> count_list (fst (dispatch_loop L A a ds)) ProducerStop = 0"
proof (induction ds arbitrary: a)
  case Nil
  show ?case by simp
next
  case (Cons d ds)
  show ?case
  proof (cases d)
    case (Raise e)
    then show ?thesis by simp
  next
    case (Msg v)
    with Cons.IH process_message_no_stop[of L A a v] show ?thesis
      by (simp only: dispatch_loop_Msg count_list_append split: if_split) simp
  qed
qed

lemma dispatch_loop_one_at_a_time:
  "one_at_a_time False (fst (dispatch_loop L A a (map Msg vs)))"
proof (induction vs arbitrary: a)
  case Nil
  show ?case by simp
next
  case (Cons v vs)
  from process_message_one_at_a_time[of L A a v] Cons.IH show ?case
    by (simp add: dispatch_loop_Msg one_at_a_time_append del: dispatch_loop.simps(3))
qed

lemma dispatch_loop_calls_prefix:
  "prefix (agent_calls (fst (dispatch_loop L A a (map Msg vs)))) (concat (map (dispatched L) vs))"
proof (induction vs arbitrary: a)
  case Nil
  show ?case by simp
next
  case (Cons v vs)
  from Cons.IH show ?case
    by (simp add: dispatch_loop_Msg agent_calls_append process_message_calls
             del: dispatch_loop.simps(3))
qed

lemma dispatch_loop_calls_all:
  "snd (snd (dispatch_loop L A a (map Msg vs))) = None \<Longrightarrow>
   agent_calls (fst (dispatch_loop L A a (map Msg vs))) = concat (map (dispatched L) vs)"
proof (induction vs arbitrary: a)
  case Nil
  show ?case by simp
next
  case (Cons v vs)
  then show ?case
    by (simp add: dispatch_loop_Msg agent_calls_append process_message_calls
             del: dispatch_loop.simps(3) split: if_splits)
qed

lemma dispatch_loop_state:
  "fst (snd (dispatch_loop L A a (map Msg vs)))
     = foldl (\<lambda>s c. snd (A s c)) a (agent_calls (fst (dispatch_loop L A a (map Msg vs))))"
proof (induction vs arbitrary: a)
  case Nil
  show ?case by simp
next
  case (Cons v vs)
  then show ?case
    by (simp add: dispatch_loop_Msg agent_calls_append process_message_calls process_message_state
             del: dispatch_loop.simps(3))
qed

lemma deep_text_nonempty: "deep_text \<noteq> []"
  by (simp add: deep_text_def)

section \<open>The claims\<close>

lemma try_block_dict_unrecognized:
  assumes "\<not> ((dict_get d ''type'' = PStr ''user_message'' \<or> dict_get d ''type'' = PStr ''user'')
              \<and> dict_contains d ''content'')"
  shows "try_block L A a (PDict d) = (if d = [] then [] else [LogReceived (PDict d)], a, None)"
proof -
  from assms have "extract_user_content L (PDict d) = Inr PNone"
    by (cases "map_of d ''content''")
       (auto simp add: extract_user_content_def classify_dict_cases dict_contains_def)
  then show ?thesis by (simp add: try_block_def)
qed

text \<open>
  Claim C1. For a delivered dict, the extracted content is the value of its
  \<^verbatim>\<open>content\<close> key when its \<^verbatim>\<open>type\<close> is \<^verbatim>\<open>"user_message"\<close> or
  \<^verbatim>\<open>"user"\<close> and the key \<^verbatim>\<open>content\<close> is present. For every other dict the
  extracted content is \<^verbatim>\<open>None\<close> and the iteration ends with no call to the agent
  and no error: the empty dict leaves no trace at all, any other one only the line
  "Received message". (A \<^verbatim>\<open>content\<close> of \<^verbatim>\<open>null\<close> is itself \<^verbatim>\<open>None\<close>.)
\<close>

theorem mapping_classification:
  "((dict_get d ''type'' = PStr ''user_message'' \<or> dict_get d ''type'' = PStr ''user'')
      \<and> map_of d ''content'' = Some c
      \<longrightarrow> extract_user_content L (PDict d) = Inr c)
   \<and> (\<not> ((dict_get d ''type'' = PStr ''user_message'' \<or> dict_get d ''type'' = PStr ''user'')
          \<and> dict_contains d ''content'')
      \<longrightarrow> extract_user_content L (PDict d) = Inr PNone
          \<and> process_message L A a (PDict d)
              = (if d = [] then [] else [LogReceived (PDict d)], a, None)
          \<and> agent_calls (fst (process_message L A a (PDict d))) = []
          \<and> error_logs (fst (process_message L A a (PDict d))) = [])"
proof (intro conjI impI)
  assume "(dict_get d ''type'' = PStr ''user_message'' \<or> dict_get d ''type'' = PStr ''user'')
      \<and> map_of d ''content'' = Some c"
  then show "extract_user_content L (PDict d) = Inr c"
    by (auto simp add: extract_user_content_def classify_dict_cases)
next
  assume un: "\<not> ((dict_get d ''type'' = PStr ''user_message'' \<or> dict_get d ''type'' = PStr ''user'')
          \<and> dict_contains d ''content'')"
  then show "extract_user_content L (PDict d) = Inr PNone"
    by (cases "map_of d ''content''")
       (auto simp add: extract_user_content_def classify_dict_cases dict_contains_def)
  from un show pm: "process_message L A a (PDict d)
              = (if d = [] then [] else [LogReceived (PDict d)], a, None)"
    by (simp add: process_message_def try_block_dict_unrecognized)
  from pm show "agent_calls (fst (process_message L A a (PDict d))) = []" by simp
  from pm show "error_logs (fst (process_message L A a (PDict d))) = []" by simp
qed

text \<open>
  The envelope \<^verbatim>\<open>{"type":"user_message","content":"hello"}\<close> yields \<open>''hello''\<close>,
  and \<^verbatim>\<open>{"type":"system","content":"ping"}\<close> is skipped.
\<close>

theorem mapping_classification_witness:
  "extract_user_content sample_loads
     (PDict [(''type'', PStr ''user_message''), (''content'', PStr ''hello'')]) = Inr (PStr ''hello'')
   \<and> process_message sample_loads sample_assistant 0
       (PDict [(''type'', PStr ''system''), (''content'', PStr ''ping'')])
     = ([LogReceived (PDict [(''type'', PStr ''system''), (''content'', PStr ''ping'')])], 0, None)"
  using mapping_classification
          [of "[(''type'', PStr ''user_message''), (''content'', PStr ''hello'')]" "PStr ''hello''"
              sample_loads sample_assistant 0]
        mapping_classification
          [of "[(''type'', PStr ''system''), (''content'', PStr ''ping'')]" PNone
              sample_loads sample_assistant 0]
  by (simp add: dict_get_def dict_contains_def)

text \<open>
  Claim C8. A dict with a recognised \<^verbatim>\<open>type\<close> whose \<^verbatim>\<open>content\<close> is falsy:
  extraction yields that value, and the test \<^verbatim>\<open>if user_content\<close> drops the message.
  The agent is not called and its state is unchanged; only "Received message" is logged.
\<close>

theorem falsy_content_dropped:
  assumes "dict_get d ''type'' = PStr ''user_message'' \<or> dict_get d ''type'' = PStr ''user''"
    and "map_of d ''content'' = Some c"
    and "\<not> truthy c"
  shows "extract_user_content L (PDict d) = Inr c
         \<and> process_message L A a (PDict d) = ([LogReceived (PDict d)], a, None)
         \<and> agent_calls (fst (process_message L A a (PDict d))) = []"
proof -
  from assms(2) have ne: "d \<noteq> []" by auto
  from assms(1,2) have ex: "extract_user_content L (PDict d) = Inr c"
    by (auto simp add: extract_user_content_def classify_dict_cases)
  from ne ex assms(3) have "process_message L A a (PDict d) = ([LogReceived (PDict d)], a, None)"
    by (simp add: process_message_def try_block_def)
  with ex show ?thesis by simp
qed

text \<open>An empty string and the number 0 as content.\<close>

theorem falsy_content_dropped_witness:
  "extract_user_content sample_loads (PDict [(''type'', PStr ''user''), (''content'', PStr [])])
     = Inr (PStr [])
   \<and> process_message sample_loads sample_assistant 0
        (PDict [(''type'', PStr ''user''), (''content'', PStr [])])
     = ([LogReceived (PDict [(''type'', PStr ''user''), (''content'', PStr [])])], 0, None)
   \<and> process_message sample_loads sample_assistant 0
        (PDict [(''type'', PStr ''user_message''), (''content'', PInt 0)])
     = ([LogReceived (PDict [(''type'', PStr ''user_message''), (''content'', PInt 0)])], 0, None)"
  using falsy_content_dropped
          [of "[(''type'', PStr ''user''), (''content'', PStr [])]" "PStr []"
              sample_loads sample_assistant 0]
        falsy_content_dropped
          [of "[(''type'', PStr ''user_message''), (''content'', PInt 0)]" "PInt 0"
              sample_loads sample_assistant 0]
  by (simp add: dict_get_def)

text \<open>
  Claim C5, as stated, fails. The empty str does not parse as JSON
  (\<^verbatim>\<open>json.loads('')\<close> raises \<^verbatim>\<open>JSONDecodeError\<close>), but the loop skips it at
  line 171: nothing is extracted and the agent is not called. And on the text
  \<^verbatim>\<open>'[' * 100000\<close>, which is not valid JSON either, \<^verbatim>\<open>json.loads\<close> raises
  \<^verbatim>\<open>RecursionError\<close>, which line 191 does not catch: the text is logged as an error
  and dropped, and the agent is not called.
\<close>

theorem unparsed_text_not_forwarded_counterexample:
  "sample_loads [] = Inl JSONDecodeError
   \<and> process_message sample_loads sample_assistant 0 (PStr []) = ([], 0, None)
   \<and> agent_calls (fst (process_message sample_loads sample_assistant 0 (PStr []))) = []
   \<and> sample_loads_deep deep_text = Inl (Exc ''RecursionError'')
   \<and> extract_user_content sample_loads_deep (PStr deep_text) = Inl (Exc ''RecursionError'')
   \<and> process_message sample_loads_deep sample_assistant 0 (PStr deep_text)
       = ([LogReceived (PStr deep_text), LogError (Exc ''RecursionError''),
           PrintTraceback (Exc ''RecursionError'')], 0, None)
   \<and> agent_calls (fst (process_message sample_loads_deep sample_assistant 0 (PStr deep_text))) = []"
  by (simp add: sample_loads_def sample_loads_deep_def deep_text_nonempty process_message_def
        try_block_def extract_user_content_def classify_str_def)

text \<open>
  Claim C5, amended. For a str on which \<^verbatim>\<open>json.loads\<close> raises
  \<^verbatim>\<open>JSONDecodeError\<close> the extracted content is the str itself, unchanged; when the str
  is not empty the agent is called with it, once, after the lines "Received message"
  and "User". The empty str is skipped before the extraction, with no trace. When
  \<^verbatim>\<open>json.loads\<close> raises another exception, the extraction raises it; an
  \<^verbatim>\<open>Exception\<close> among these is logged by the per-message handler and the text is
  dropped without a call to the agent.
\<close>

theorem non_json_text_verbatim:
  "(L s = Inl JSONDecodeError \<longrightarrow> extract_user_content L (PStr s) = Inr (PStr s))
   \<and> (L s = Inl JSONDecodeError \<and> s \<noteq> [] \<longrightarrow>
        try_block L A a (PStr s)
          = (case A a (PStr s) of
               (Inr response, a') \<Rightarrow>
                 ([LogReceived (PStr s), LogUser (PStr s), AgentCall (PStr s),
                   AgentReturn response, LogAssistant response], a', None)
             | (Inl e', a') \<Rightarrow>
                 ([LogReceived (PStr s), LogUser (PStr s), AgentCall (PStr s),
                   AgentRaise e'], a', Some e'))
        \<and> agent_calls (fst (process_message L A a (PStr s))) = [PStr s])
   \<and> (s = [] \<longrightarrow> process_message L A a (PStr s) = ([], a, None))
   \<and> (L s = Inl e \<and> e \<noteq> JSONDecodeError \<longrightarrow> extract_user_content L (PStr s) = Inl e)
   \<and> (L s = Inl e \<and> e \<noteq> JSONDecodeError \<and> is_Exception e \<and> s \<noteq> [] \<longrightarrow>
        process_message L A a (PStr s)
          = ([LogReceived (PStr s), LogError e, PrintTraceback e], a, None))"
proof (intro conjI impI)
  assume "L s = Inl JSONDecodeError"
  then show "extract_user_content L (PStr s) = Inr (PStr s)"
    by (simp add: extract_user_content_def classify_str_def)
next
  assume h: "L s = Inl JSONDecodeError \<and> s \<noteq> []"
  then have ex: "extract_user_content L (PStr s) = Inr (PStr s)"
    by (simp add: extract_user_content_def classify_str_def)
  with h show "try_block L A a (PStr s)
          = (case A a (PStr s) of
               (Inr response, a') \<Rightarrow>
                 ([LogReceived (PStr s), LogUser (PStr s), AgentCall (PStr s),
                   AgentReturn response, LogAssistant response], a', None)
             | (Inl e', a') \<Rightarrow>
                 ([LogReceived (PStr s), LogUser (PStr s), AgentCall (PStr s),
                   AgentRaise e'], a', Some e'))"
    by (simp add: try_block_def split: prod.split sum.split)
  from h ex have "dispatched L (PStr s) = [PStr s]" by (simp add: dispatched_def)
  then show "agent_calls (fst (process_message L A a (PStr s))) = [PStr s]"
    by (simp add: process_message_calls)
next
  assume "s = []"
  then show "process_message L A a (PStr s) = ([], a, None)"
    by (simp add: process_message_def try_block_def)
next
  assume "L s = Inl e \<and> e \<noteq> JSONDecodeError"
  then show "extract_user_content L (PStr s) = Inl e"
    by (simp add: extract_user_content_def classify_str_def)
next
  assume h: "L s = Inl e \<and> e \<noteq> JSONDecodeError \<and> is_Exception e \<and> s \<noteq> []"
  then have "extract_user_content L (PStr s) = Inl e"
    by (simp add: extract_user_content_def classify_str_def)
  with h show "process_message L A a (PStr s)
          = ([LogReceived (PStr s), LogError e, PrintTraceback e], a, None)"
    by (simp add: process_message_def try_block_def)
qed

text \<open>
  The bare text \<open>''hello''\<close> is forwarded, the empty str is skipped, and the text
  \<^verbatim>\<open>'[' * 100000\<close> is logged and dropped.
\<close>

theorem non_json_text_verbatim_witness:
  "extract_user_content sample_loads (PStr ''hello'') = Inr (PStr ''hello'')
   \<and> try_block sample_loads sample_assistant 0 (PStr ''hello'')
       = ([LogReceived (PStr ''hello''), LogUser (PStr ''hello''), AgentCall (PStr ''hello''),
           AgentReturn ''ok'', LogAssistant ''ok''], 1, None)
   \<and> agent_calls (fst (process_message sample_loads sample_assistant 0 (PStr ''hello'')))
       = [PStr ''hello'']
   \<and> process_message sample_loads sample_assistant 0 (PStr []) = ([], 0, None)
   \<and> process_message sample_loads_deep sample_assistant 0 (PStr deep_text)
       = ([LogReceived (PStr deep_text), LogError (Exc ''RecursionError''),
           PrintTraceback (Exc ''RecursionError'')], 0, None)"
  using non_json_text_verbatim [of sample_loads "''hello''" sample_assistant 0 JSONDecodeError]
        non_json_text_verbatim [of sample_loads "[]" sample_assistant 0 JSONDecodeError]
        non_json_text_verbatim [of sample_loads_deep deep_text sample_assistant 0
                                   "Exc ''RecursionError''"]
  by (simp add: sample_loads_def sample_loads_deep_def sample_assistant_def deep_text_nonempty)

text \<open>
  Claim C9. For a str that \<^verbatim>\<open>json.loads\<close> decodes to a value that is not a dict,
  \<^verbatim>\<open>data_obj.get\<close> raises \<^verbatim>\<open>AttributeError\<close>. The handler of the inner
  \<^verbatim>\<open>try\<close> does not catch it; the per-message handler does: the error is logged, the
  str is not taken as content, the agent is not called and the loop goes on.
\<close>

theorem json_non_mapping_text_raises:
  assumes "L s = Inr v" and "\<not> is_mapping v" and "s \<noteq> []"
  shows "extract_user_content L (PStr s) = Inl AttributeError
         \<and> process_message L A a (PStr s)
             = ([LogReceived (PStr s), LogError AttributeError, PrintTraceback AttributeError],
                a, None)
         \<and> agent_calls (fst (process_message L A a (PStr s))) = []
         \<and> extract_user_content L (PStr s) \<noteq> Inr (PStr s)"
proof -
  from assms(1,2) have ex: "extract_user_content L (PStr s) = Inl AttributeError"
    by (simp add: extract_user_content_def classify_str_def classify_decoded_other)
  with assms(3) have "process_message L A a (PStr s)
             = ([LogReceived (PStr s), LogError AttributeError, PrintTraceback AttributeError],
                a, None)"
    by (simp add: process_message_def try_block_def)
  with ex show ?thesis by simp
qed

text \<open>The texts \<^verbatim>\<open>[1, 2]\<close> and \<^verbatim>\<open>42\<close>.\<close>

theorem json_non_mapping_text_raises_witness:
  "process_message sample_loads sample_assistant 0 (PStr ''[1, 2]'')
     = ([LogReceived (PStr ''[1, 2]''), LogError AttributeError, PrintTraceback AttributeError],
        0, None)
   \<and> process_message sample_loads sample_assistant 0 (PStr ''42'')
     = ([LogReceived (PStr ''42''), LogError AttributeError, PrintTraceback AttributeError],
        0, None)"
  using json_non_mapping_text_raises
          [of sample_loads "''[1, 2]''" "PList [PInt 1, PInt 2]" sample_assistant 0]
        json_non_mapping_text_raises [of sample_loads "''42''" "PInt 42" sample_assistant 0]
  by (simp add: sample_loads_def)

text \<open>
  Claim C10. An empty payload is deserialized to \<^verbatim>\<open>None\<close>. A falsy value is skipped
  by \<^verbatim>\<open>continue\<close> before anything else: no log line, no extraction, no call to the
  agent, no error, and the loop behaves as if the message had not been delivered.
\<close>

theorem falsy_value_skipped:
  "value_deserializer L D None = Inr PNone
   \<and> value_deserializer L D (Some []) = Inr PNone
   \<and> (\<not> truthy v \<longrightarrow>
        try_block L A a v = ([], a, None)
        \<and> process_message L A a v = ([], a, None)
        \<and> dispatch_loop L A a (Msg v # ds) = dispatch_loop L A a ds)"
  by (simp add: value_deserializer_def process_message_def try_block_def split: prod.split)

text \<open>The five falsy values the claim lists.\<close>

theorem falsy_value_skipped_witness:
  "process_message sample_loads sample_assistant 0 PNone = ([], 0, None)
   \<and> process_message sample_loads sample_assistant 0 (PStr []) = ([], 0, None)
   \<and> process_message sample_loads sample_assistant 0 (PDict []) = ([], 0, None)
   \<and> process_message sample_loads sample_assistant 0 (PInt 0) = ([], 0, None)
   \<and> process_message sample_loads sample_assistant 0 (PBool False) = ([], 0, None)
   \<and> dispatch_loop sample_loads sample_assistant 0 [Msg PNone, Msg (PStr ''hello'')]
       = dispatch_loop sample_loads sample_assistant 0 [Msg (PStr ''hello'')]"
  using falsy_value_skipped [of sample_loads "\<lambda>bs. Inr []" PNone sample_assistant 0 "[Msg (PStr ''hello'')]"]
        falsy_value_skipped [of sample_loads "\<lambda>bs. Inr []" "PStr []" sample_assistant 0 "[]"]
        falsy_value_skipped [of sample_loads "\<lambda>bs. Inr []" "PDict []" sample_assistant 0 "[]"]
        falsy_value_skipped [of sample_loads "\<lambda>bs. Inr []" "PInt 0" sample_assistant 0 "[]"]
        falsy_value_skipped [of sample_loads "\<lambda>bs. Inr []" "PBool False" sample_assistant 0 "[]"]
  by simp

text \<open>
  Claim C2, as stated, fails. The text \<^verbatim>\<open>{"type":"system","content":"ping"}\<close> decodes
  to a dict with no recognised \<^verbatim>\<open>type\<close>: delivered as a dict its content is
  \<^verbatim>\<open>None\<close> and the agent is not called, but delivered as a str the \<^verbatim>\<open>else\<close> branch
  of line 190 takes the whole text as content and the agent is called with it.
\<close>

theorem unrecognized_json_text_counterexample:
  \<open>sample_loads ''{"type":"system","content":"ping"}''
      = Inr (PDict [(''type'', PStr ''system''), (''content'', PStr ''ping'')])
   \<and> extract_user_content sample_loads
        (PDict [(''type'', PStr ''system''), (''content'', PStr ''ping'')]) = Inr PNone
   \<and> extract_user_content sample_loads (PStr ''{"type":"system","content":"ping"}'')
      = Inr (PStr ''{"type":"system","content":"ping"}'')
   \<and> agent_calls (fst (process_message sample_loads sample_assistant 0
        (PDict [(''type'', PStr ''system''), (''content'', PStr ''ping'')]))) = []
   \<and> agent_calls (fst (process_message sample_loads sample_assistant 0
        (PStr ''{"type":"system","content":"ping"}'')))
      = [PStr ''{"type":"system","content":"ping"}'']\<close>
  by (simp add: sample_loads_def sample_assistant_def extract_user_content_def classify_dict_def
        classify_str_def classify_decoded_def dict_get_def dict_contains_def dict_getitem_def
        process_message_def try_block_def)

text \<open>
  Claim C2, amended. For a str that \<^verbatim>\<open>json.loads\<close> decodes to a dict: when the dict
  has a recognised \<^verbatim>\<open>type\<close> and a \<^verbatim>\<open>content\<close> key, the extracted content is the
  value of that key, the same as for the dict delivered directly; otherwise the extracted
  content is the whole str, unchanged, and a non-empty str is forwarded to the agent.
\<close>

theorem json_text_envelope:
  assumes "L s = Inr (PDict d)"
  shows "((dict_get d ''type'' = PStr ''user_message'' \<or> dict_get d ''type'' = PStr ''user'')
            \<and> map_of d ''content'' = Some c
          \<longrightarrow> extract_user_content L (PStr s) = Inr c
              \<and> extract_user_content L (PStr s) = extract_user_content L (PDict d))
         \<and> (\<not> ((dict_get d ''type'' = PStr ''user_message'' \<or> dict_get d ''type'' = PStr ''user'')
                \<and> dict_contains d ''content'')
          \<longrightarrow> extract_user_content L (PStr s) = Inr (PStr s)
              \<and> (s \<noteq> [] \<longrightarrow> agent_calls (fst (process_message L A a (PStr s))) = [PStr s]))"
proof (intro conjI impI)
  assume rec: "(dict_get d ''type'' = PStr ''user_message'' \<or> dict_get d ''type'' = PStr ''user'')
            \<and> map_of d ''content'' = Some c"
  with assms show str: "extract_user_content L (PStr s) = Inr c"
    by (auto simp add: extract_user_content_def classify_str_def classify_decoded_dict)
  from rec have "extract_user_content L (PDict d) = Inr c"
    by (auto simp add: extract_user_content_def classify_dict_cases)
  with str show "extract_user_content L (PStr s) = extract_user_content L (PDict d)" by simp
next
  assume un: "\<not> ((dict_get d ''type'' = PStr ''user_message'' \<or> dict_get d ''type'' = PStr ''user'')
                \<and> dict_contains d ''content'')"
  with assms show ex: "extract_user_content L (PStr s) = Inr (PStr s)"
    by (cases "map_of d ''content''")
       (auto simp add: extract_user_content_def classify_str_def classify_decoded_dict
          dict_contains_def)
  assume "s \<noteq> []"
  with ex have "dispatched L (PStr s) = [PStr s]" by (simp add: dispatched_def)
  then show "agent_calls (fst (process_message L A a (PStr s))) = [PStr s]"
    by (simp add: process_message_calls)
qed

text \<open>
  The text \<^verbatim>\<open>{"type":"user","content":"hi"}\<close> yields \<open>''hi''\<close>, and the text
  \<^verbatim>\<open>{"type":"system","content":"ping"}\<close> yields itself.
\<close>

theorem json_text_envelope_witness:
  \<open>extract_user_content sample_loads (PStr ''{"type":"user","content":"hi"}'') = Inr (PStr ''hi'')
   \<and> extract_user_content sample_loads (PStr ''{"type":"system","content":"ping"}'')
      = Inr (PStr ''{"type":"system","content":"ping"}'')\<close>
  using json_text_envelope
          [of sample_loads \<open>''{"type":"user","content":"hi"}''\<close>
              "[(''type'', PStr ''user''), (''content'', PStr ''hi'')]" "PStr ''hi''"
              sample_assistant 0]
        json_text_envelope
          [of sample_loads \<open>''{"type":"system","content":"ping"}''\<close>
              "[(''type'', PStr ''system''), (''content'', PStr ''ping'')]" PNone
              sample_assistant 0]
  by (simp add: sample_loads_def dict_get_def dict_contains_def)

text \<open>
  Claim C3. Let the messages before message \<open>v\<close> leave the loop running, and let the
  processing of \<open>v\<close> (extraction or the call to the agent; the loop publishes nothing)
  raise an \<^verbatim>\<open>Exception\<close> \<open>e\<close>. Then the iteration catches \<open>e\<close>, logs it and prints
  the traceback, and the loop goes on: the trace of the whole run is the trace of the
  messages before \<open>v\<close>, then that of \<open>v\<close> with its error log, then the trace of all the
  messages after \<open>v\<close>, processed from the state \<open>v\<close> left.
\<close>

theorem per_message_failure_isolation:
  assumes "dispatch_loop L A a (map Msg vs1) = (e1, a1, None)"
    and "try_block L A a1 v = (ek, ak, Some e)"
    and "is_Exception e"
  shows "process_message L A a1 v = (ek @ [LogError e, PrintTraceback e], ak, None)
         \<and> dispatch_loop L A a (map Msg (vs1 @ v # vs2))
             = (e1 @ (ek @ [LogError e, PrintTraceback e]) @ fst (dispatch_loop L A ak (map Msg vs2)),
                snd (dispatch_loop L A ak (map Msg vs2)))"
proof -
  from assms(2,3) have pm: "process_message L A a1 v = (ek @ [LogError e, PrintTraceback e], ak, None)"
    by (simp add: process_message_def)
  have "dispatch_loop L A a (map Msg vs1 @ map Msg (v # vs2))
          = (case dispatch_loop L A a1 (map Msg (v # vs2)) of (e2, a2, r) \<Rightarrow> (e1 @ e2, a2, r))"
    by (rule dispatch_loop_append [OF assms(1)])
  with pm show ?thesis by (simp split: prod.split)
qed

text \<open>
  Three messages: \<open>''hello''\<close>, then \<open>''boom''\<close>, on which the agent raises, then
  \<open>''hello''\<close> again. The third message is answered.
\<close>

theorem per_message_failure_isolation_witness:
  "dispatch_loop sample_loads sample_assistant 0 (map Msg [PStr ''hello'', PStr ''boom'', PStr ''hello''])
     = ([LogReceived (PStr ''hello''), LogUser (PStr ''hello''), AgentCall (PStr ''hello''),
         AgentReturn ''ok'', LogAssistant ''ok'',
         LogReceived (PStr ''boom''), LogUser (PStr ''boom''), AgentCall (PStr ''boom''),
         AgentRaise (Exc ''RuntimeError''),
         LogError (Exc ''RuntimeError''), PrintTraceback (Exc ''RuntimeError''),
         LogReceived (PStr ''hello''), LogUser (PStr ''hello''), AgentCall (PStr ''hello''),
         AgentReturn ''ok'', LogAssistant ''ok''], 3, None)"
proof -
  have h1: "dispatch_loop sample_loads sample_assistant 0 (map Msg [PStr ''hello''])
              = ([LogReceived (PStr ''hello''), LogUser (PStr ''hello''), AgentCall (PStr ''hello''),
                  AgentReturn ''ok'', LogAssistant ''ok''], Suc 0, None)"
    by (simp add: process_message_def try_block_def extract_user_content_def classify_str_def
          sample_loads_def sample_assistant_def)
  have h2: "try_block sample_loads sample_assistant (Suc 0) (PStr ''boom'')
              = ([LogReceived (PStr ''boom''), LogUser (PStr ''boom''), AgentCall (PStr ''boom''),
                  AgentRaise (Exc ''RuntimeError'')], Suc (Suc 0), Some (Exc ''RuntimeError''))"
    by (simp add: try_block_def extract_user_content_def classify_str_def
          sample_loads_def sample_assistant_def)
  have h3: "is_Exception (Exc ''RuntimeError'')" by simp
  have h4: "dispatch_loop sample_loads sample_assistant (Suc (Suc 0)) (map Msg [PStr ''hello''])
              = ([LogReceived (PStr ''hello''), LogUser (PStr ''hello''), AgentCall (PStr ''hello''),
                  AgentReturn ''ok'', LogAssistant ''ok''], 3, None)"
    by (simp add: process_message_def try_block_def extract_user_content_def classify_str_def
          sample_loads_def sample_assistant_def)
  from per_message_failure_isolation [OF h1 h2 h3, of "[PStr ''hello'']"] h4
  show ?thesis by simp
qed

text \<open>
  Claim C4, as stated, fails. The \<^verbatim>\<open>finally\<close> block awaits \<^verbatim>\<open>consumer.stop()\<close> and
  then \<^verbatim>\<open>producer.stop()\<close> with no handler around either. When
  \<^verbatim>\<open>consumer.stop()\<close> raises, here after the consumer is exhausted at once, the
  producer's \<^verbatim>\<open>stop()\<close> is never attempted, nothing is logged, and the exception
  leaves \<^verbatim>\<open>main\<close>.
\<close>

theorem shutdown_stops_both_counterexample:
  "run_main sample_loads sample_assistant (Some (Exc ''KafkaError'')) None 0 []
     = ([ConsumerStop], 0, Some (Exc ''KafkaError''))
   \<and> count_list (fst (run_main sample_loads sample_assistant (Some (Exc ''KafkaError'')) None 0 []))
        ProducerStop = 0"
  by (simp add: run_main_def outer_handlers_def shutdown_def)

text \<open>
  Claim C4, amended. On every exit path of the dispatch loop (end of the iteration,
  \<^verbatim>\<open>KeyboardInterrupt\<close>, an \<^verbatim>\<open>Exception\<close> or any other exception leaving the loop)
  the shutdown follows everything the loop and its handlers did, and it is:
  \<^verbatim>\<open>consumer.stop()\<close> first, attempted exactly once; then \<^verbatim>\<open>producer.stop()\<close>,
  attempted exactly once when \<^verbatim>\<open>consumer.stop()\<close> returned and not at all when it
  raised; then the line "Consumer and producer stopped", only when both returned. A
  failure of either \<^verbatim>\<open>stop()\<close> is not logged: the log of the run is the log of the
  loop and its handlers and nothing more. The failure is raised out of the statement.
\<close>

theorem shutdown_sequence:
  "fst (run_main L A consumer_stop producer_stop a ds)
     = fst (dispatch_loop L A a ds)
       @ fst (outer_handlers (snd (snd (dispatch_loop L A a ds))))
       @ (case consumer_stop of
            Some ce \<Rightarrow> [ConsumerStop]
          | None \<Rightarrow>
              (case producer_stop of
                 Some pe \<Rightarrow> [ConsumerStop, ProducerStop]
               | None \<Rightarrow> [ConsumerStop, ProducerStop, LogStopped]))
   \<and> filter is_log (fst (run_main L A consumer_stop producer_stop a ds))
     = filter is_log (fst (dispatch_loop L A a ds)
                      @ fst (outer_handlers (snd (snd (dispatch_loop L A a ds)))))
       @ (if consumer_stop = None \<and> producer_stop = None then [LogStopped] else [])
   \<and> count_list (fst (dispatch_loop L A a ds)
                   @ fst (outer_handlers (snd (snd (dispatch_loop L A a ds))))) ConsumerStop = 0
   \<and> count_list (fst (dispatch_loop L A a ds)
                   @ fst (outer_handlers (snd (snd (dispatch_loop L A a ds))))) ProducerStop = 0
   \<and> count_list (fst (run_main L A consumer_stop producer_stop a ds)) ConsumerStop = 1
   \<and> count_list (fst (run_main L A consumer_stop producer_stop a ds)) ProducerStop
       = (if consumer_stop = None then 1 else 0)
   \<and> (consumer_stop = Some e \<longrightarrow>
        snd (snd (run_main L A consumer_stop producer_stop a ds)) = Some e)
   \<and> (consumer_stop = None \<and> producer_stop = Some e \<longrightarrow>
        snd (snd (run_main L A consumer_stop producer_stop a ds)) = Some e)
   \<and> (consumer_stop = None \<and> producer_stop = None \<longrightarrow>
        snd (snd (run_main L A consumer_stop producer_stop a ds))
          = snd (outer_handlers (snd (snd (dispatch_loop L A a ds)))))"
proof -
  obtain evs a' r where dl: "dispatch_loop L A a ds = (evs, a', r)"
    by (cases "dispatch_loop L A a ds") auto
  from dispatch_loop_no_stop [of L A a ds] dl
  have c0: "count_list evs ConsumerStop = 0" and p0: "count_list evs ProducerStop = 0"
    by simp_all
  obtain hevs pending where oh: "outer_handlers r = (hevs, pending)"
    by (cases "outer_handlers r") auto
  then have h0: "count_list hevs ConsumerStop = 0 \<and> count_list hevs ProducerStop = 0"
    by (auto simp add: outer_handlers_def split: option.splits if_splits)
  show ?thesis
  proof (cases consumer_stop)
    case (Some ce)
    with dl oh c0 p0 h0 show ?thesis
      by (simp add: run_main_def shutdown_def)
  next
    case None
    with dl oh c0 p0 h0 show ?thesis
      by (cases producer_stop) (simp_all add: run_main_def shutdown_def)
  qed
qed

text \<open>
  A \<^verbatim>\<open>KeyboardInterrupt\<close> from the consumer after one message, with both stops
  returning; the same run with a producer whose \<^verbatim>\<open>stop()\<close> raises; and the same run
  with a consumer whose \<^verbatim>\<open>stop()\<close> raises.
\<close>

theorem shutdown_sequence_witness:
  "run_main sample_loads sample_assistant None None 0 [Msg (PStr ''hello''), Raise KeyboardInterrupt]
     = ([LogReceived (PStr ''hello''), LogUser (PStr ''hello''), AgentCall (PStr ''hello''),
         AgentReturn ''ok'', LogAssistant ''ok'', LogInterrupt,
         ConsumerStop, ProducerStop, LogStopped], 1, None)
   \<and> count_list (fst (run_main sample_loads sample_assistant None None 0
        [Msg (PStr ''hello''), Raise KeyboardInterrupt])) ConsumerStop = 1
   \<and> snd (snd (run_main sample_loads sample_assistant None (Some (Exc ''KafkaError'')) 0
        [Msg (PStr ''hello''), Raise KeyboardInterrupt])) = Some (Exc ''KafkaError'')
   \<and> filter is_log (fst (run_main sample_loads sample_assistant (Some (Exc ''KafkaError'')) None 0
        [Msg (PStr ''hello''), Raise KeyboardInterrupt]))
      = [LogReceived (PStr ''hello''), LogUser (PStr ''hello''), LogAssistant ''ok'', LogInterrupt]"
  using shutdown_sequence [of sample_loads sample_assistant None None 0
          "[Msg (PStr ''hello''), Raise KeyboardInterrupt]" KeyboardInterrupt]
        shutdown_sequence [of sample_loads sample_assistant None "Some (Exc ''KafkaError'')" 0
          "[Msg (PStr ''hello''), Raise KeyboardInterrupt]" "Exc ''KafkaError''"]
        shutdown_sequence [of sample_loads sample_assistant "Some (Exc ''KafkaError'')" None 0
          "[Msg (PStr ''hello''), Raise KeyboardInterrupt]" "Exc ''KafkaError''"]
  by (simp add: run_main_def outer_handlers_def shutdown_def process_message_def try_block_def
        extract_user_content_def classify_str_def sample_loads_def sample_assistant_def)




text \<open>
  Claim C7. The loop handles one message at a time, in the order of delivery. In the
  trace of any run no message is received and no call to the agent starts while a call
  is in flight; the prompts given to the agent are, in order, the contents extracted from
  the messages, up to the message at which the loop was left (all of them when the loop
  ran to the end of the list); and the agent's final state is the one reached by making
  these calls one after the other.
\<close>

theorem sequential_in_order_dispatch:
  "one_at_a_time False (fst (dispatch_loop L A a (map Msg vs)))
   \<and> prefix (agent_calls (fst (dispatch_loop L A a (map Msg vs)))) (concat (map (dispatched L) vs))
   \<and> (snd (snd (dispatch_loop L A a (map Msg vs))) = None \<longrightarrow>
        agent_calls (fst (dispatch_loop L A a (map Msg vs))) = concat (map (dispatched L) vs))
   \<and> fst (snd (dispatch_loop L A a (map Msg vs)))
       = foldl (\<lambda>s c. snd (A s c)) a (agent_calls (fst (dispatch_loop L A a (map Msg vs))))"
  using dispatch_loop_one_at_a_time [of L A a vs] dispatch_loop_calls_prefix [of L A a vs]
        dispatch_loop_calls_all [of L A a vs] dispatch_loop_state [of L A a vs]
  by blast

text \<open>
  Four messages: an envelope, a control message, a bare text and an envelope in a str.
  The agent is called three times, in that order.
\<close>

theorem sequential_in_order_dispatch_witness:
  \<open>agent_calls (fst (dispatch_loop sample_loads sample_assistant 0
      (map Msg [PDict [(''type'', PStr ''user_message''), (''content'', PStr ''one'')],
                PDict [(''type'', PStr ''system''), (''content'', PStr ''ping'')],
                PStr ''hello'',
                PStr ''{"type":"user","content":"hi"}''])))
     = [PStr ''one'', PStr ''hello'', PStr ''hi'']
   \<and> fst (snd (dispatch_loop sample_loads sample_assistant 0
      (map Msg [PDict [(''type'', PStr ''user_message''), (''content'', PStr ''one'')],
                PDict [(''type'', PStr ''system''), (''content'', PStr ''ping'')],
                PStr ''hello'',
                PStr ''{"type":"user","content":"hi"}'']))) = 3\<close>
proof -
  let ?vs = \<open>[PDict [(''type'', PStr ''user_message''), (''content'', PStr ''one'')],
              PDict [(''type'', PStr ''system''), (''content'', PStr ''ping'')],
              PStr ''hello'',
              PStr ''{"type":"user","content":"hi"}'']\<close>
  have ex: "snd (snd (dispatch_loop sample_loads sample_assistant 0 (map Msg ?vs))) = None"
    by (simp add: process_message_def try_block_def extract_user_content_def classify_dict_def
          classify_str_def classify_decoded_def dict_get_def dict_contains_def dict_getitem_def
          sample_loads_def sample_assistant_def)
  have d: "concat (map (dispatched sample_loads) ?vs) = [PStr ''one'', PStr ''hello'', PStr ''hi'']"
    by (simp add: dispatched_def extract_user_content_def classify_dict_def
          classify_str_def classify_decoded_def dict_get_def dict_contains_def dict_getitem_def
          sample_loads_def)
  from sequential_in_order_dispatch [of sample_loads sample_assistant 0 ?vs] ex d
  have calls: "agent_calls (fst (dispatch_loop sample_loads sample_assistant 0 (map Msg ?vs)))
                 = [PStr ''one'', PStr ''hello'', PStr ''hi'']"
    and st: "fst (snd (dispatch_loop sample_loads sample_assistant 0 (map Msg ?vs)))
       = foldl (\<lambda>s c. snd (sample_assistant s c)) 0
           (agent_calls (fst (dispatch_loop sample_loads sample_assistant 0 (map Msg ?vs))))"
    by simp_all
  from st calls
  have "fst (snd (dispatch_loop sample_loads sample_assistant 0 (map Msg ?vs))) = 3"
    by (simp add: sample_assistant_def)
  with calls show ?thesis by simp
qed

end
